theory Spec2Isabelle
  imports Complex_Main "HOL-Library.Sublist"
begin

section \<open>JavaScript values used by the services\<close>

text \<open>
  The result of \<^verbatim>\<open>JSON.parse\<close>. The code casts it (\<^verbatim>\<open>as TravelPlan\<close>,
  \<^verbatim>\<open>as HiddenGem[]\<close>) without looking at it, so the model keeps the untyped value.
  Numbers are rationals: every finite JSON number is one.
\<close>

datatype json =
    JNull
  | JBool bool
  | JNumber rat
  | JString string
  | JArray "json list"
  | JObject "(string \<times> json) list"

text \<open>
  A thrown value, seen through the two reads \<^verbatim>\<open>error?.message\<close> and
  \<^verbatim>\<open>error?.toString()\<close> that the code makes of it (\<open>None\<close> is \<^verbatim>\<open>undefined\<close>).
\<close>

datatype thrown = Thrown (message: "string option") (toString: "string option")

text \<open>\<^verbatim>\<open>new Error(m)\<close>: its \<^verbatim>\<open>toString()\<close> is the name alone when the message is empty.\<close>

definition new_Error :: "string \<Rightarrow> thrown" where
  "new_Error m = Thrown (Some m) (Some (if m = [] then ''Error'' else ''Error: '' @ m))"

text \<open>\<^verbatim>\<open>x || d\<close> on a string that may be undefined: the empty string is falsy.\<close>

definition or_str :: "string option \<Rightarrow> string \<Rightarrow> string" where
  "or_str x d = (case x of None \<Rightarrow> d | Some s \<Rightarrow> if s = [] then d else s)"

text \<open>A value inside a template literal: \<^verbatim>\<open>undefined\<close> prints as the word.\<close>

definition template :: "string option \<Rightarrow> string" where
  "template x = (case x of None \<Rightarrow> ''undefined'' | Some s \<Rightarrow> s)"

text \<open>\<^verbatim>\<open>String.prototype.includes\<close>: the needle occurs at some position.\<close>

fun str_includes :: "string \<Rightarrow> string \<Rightarrow> bool" where
  "str_includes [] t = (t = [])"
| "str_includes (c # cs) t = (prefix t (c # cs) \<or> str_includes cs t)"

section \<open>The service module\<close>

subsection \<open>formatError\<close>

definition formatError :: "thrown \<Rightarrow> string" where
  "formatError error =
     (let msg = or_str (message error) (or_str (toString error) ''Unknown error'') in
      if str_includes msg ''API key'' \<or> str_includes msg ''authentication''
        then ''Authentication failed. Please check your API key settings.''
      else if str_includes msg ''429''
        then ''Rate limit exceeded. The API is busy, please wait a moment and try again.''
      else if str_includes msg ''503''
        then ''Service overloaded or unavailable. Please try again later.''
      else if str_includes msg ''SAFETY''
        then ''The request was blocked due to safety settings.''
      else ''AI Request Failed: '' @ msg)"

subsection \<open>Requests and responses of the hosted service\<close>

datatype aspectRatio = R16_9 | R9_16

text \<open>
  One \<^verbatim>\<open>generateContent\<close> request: the model name, the prompt text and the three
  configuration entries the callers set.
\<close>

record gc_request =
  gc_model :: string
  gc_contents :: string
  responseMimeType :: "string option"
  thinkingBudget :: "nat option"
  imageConfig :: "aspectRatio option"

text \<open>An inline-data blob of a response part; its \<^verbatim>\<open>data\<close> may be missing.\<close>

datatype inline = Inline (inline_data: "string option")

record part =
  inlineData :: "inline option"

text \<open>
  A response: \<open>resp_text\<close> is \<^verbatim>\<open>response.text\<close>, \<open>parts\<close> is
  \<^verbatim>\<open>response.candidates?.[0]?.content?.parts || []\<close>.
\<close>

record gc_response =
  resp_text :: "string option"
  parts :: "part list"

record video_request =
  vid_model :: string
  vid_prompt :: string
  imageBytes :: string
  mimeType :: string
  numberOfVideos :: nat
  resolution :: string
  vid_aspectRatio :: aspectRatio

datatype op_error = OpError (err_message: "string option")

text \<open>
  A video operation: its name (the job handle), \<^verbatim>\<open>done\<close>, \<^verbatim>\<open>error\<close>, and
  \<open>videoUri\<close> for \<^verbatim>\<open>response?.generatedVideos?.[0]?.video?.uri\<close>.
\<close>

record operation =
  op_name :: string
  op_done :: bool
  op_error :: "op_error option"
  videoUri :: "string option"

record fetch_response =
  ok :: bool
  blob :: "thrown + string"

record chat =
  chat_model :: string
  systemInstruction :: string

text \<open>
  The world outside the module: each call of the hosted service answers or rejects
  (\<open>Inl\<close>). The \<open>k\<close>-th status query of a video job may answer differently from the
  one before, so \<open>getVideosOperation\<close> takes the number of queries already made.
  \<open>JSON_parse\<close> is the built-in parser (\<open>None\<close>: it throws), \<open>JSON_stringify\<close>
  is \<^verbatim>\<open>JSON.stringify(v, null, 2)\<close>, \<open>ToString\<close> is the engine's conversion of a
  number, array or object to a string, \<open>TypeError\<close> is what the engine throws on a read
  through \<^verbatim>\<open>null\<close> or a call of a method that is not there, and \<open>API_KEY\<close> is
  \<^verbatim>\<open>process.env.API_KEY\<close>.
\<close>

record env =
  generateContent :: "gc_request \<Rightarrow> thrown + gc_response"
  generateVideos :: "video_request \<Rightarrow> thrown + operation"
  getVideosOperation :: "nat \<Rightarrow> operation \<Rightarrow> thrown + operation"
  fetch :: "string \<Rightarrow> thrown + fetch_response"
  createObjectURL :: "string \<Rightarrow> string"
  sendMessage :: "chat \<Rightarrow> string \<Rightarrow> thrown + string option"
  JSON_parse :: "string \<Rightarrow> json option"
  JSON_stringify :: "json \<Rightarrow> string"
  ToString :: "json \<Rightarrow> string"
  TypeError :: thrown
  API_KEY :: "string option"

text \<open>What a run does to the outside, in order.\<close>

datatype effect =
    GenerateContent gc_request
  | GenerateVideos video_request
  | Wait nat
  | GetVideosOperation operation
  | Fetch string
  | SendMessage chat string
  | PreventDefault

subsection \<open>generateDroneVideo\<close>

text \<open>
  \<^verbatim>\<open>imageBase64.replace(/^data:image\/(png|jpeg|jpg);base64,/, "")\<close>: the three
  alternatives exclude one another, so the regular expression removes whichever of the
  three prefixes the string starts with, and nothing otherwise.
\<close>

fun strip_first :: "string list \<Rightarrow> string \<Rightarrow> string" where
  "strip_first [] s = s"
| "strip_first (p # ps) s = (if prefix p s then drop (length p) s else strip_first ps s)"

definition cleanBase64 :: "string \<Rightarrow> string" where
  "cleanBase64 imageBase64 =
     strip_first [''data:image/png;base64,'', ''data:image/jpeg;base64,'',
                  ''data:image/jpg;base64,''] imageBase64"

text \<open>
  The polling loop. It has no bound, so the model is a partial function: \<open>None\<close> is a
  loop that never ends. \<open>k\<close> counts the status queries made so far, \<open>tr\<close> is the trace.
\<close>

partial_function (option) poll ::
  "env \<Rightarrow> nat \<Rightarrow> operation \<Rightarrow> effect list \<Rightarrow> (effect list \<times> (thrown + operation)) option"
where
  "poll env k operation tr =
     (if op_done operation then Some (tr, Inr operation)
      else (case getVideosOperation env k operation of
              Inl e \<Rightarrow> Some (tr @ [Wait 5000, GetVideosOperation operation], Inl e)
            | Inr operation' \<Rightarrow>
                poll env (Suc k) operation' (tr @ [Wait 5000, GetVideosOperation operation])))"

text \<open>The code after the loop, up to the returned object URL.\<close>

definition retrieve :: "env \<Rightarrow> operation \<Rightarrow> effect list \<times> (thrown + string)" where
  "retrieve env operation =
     (case op_error operation of
        Some err \<Rightarrow> ([], Inl (new_Error (or_str (err_message err) ''Video generation failed'')))
      | None \<Rightarrow>
         (case videoUri operation of
            None \<Rightarrow> ([], Inl (new_Error ''No video URI returned''))
          | Some downloadLink \<Rightarrow>
              if downloadLink = [] then ([], Inl (new_Error ''No video URI returned''))
              else
                let url = downloadLink @ ''&key='' @ template (API_KEY env) in
                (case fetch env url of
                   Inl e \<Rightarrow> ([Fetch url], Inl e)
                 | Inr response \<Rightarrow>
                     if \<not> ok response
                       then ([Fetch url], Inl (new_Error ''Failed to download video content''))
                     else (case blob response of
                             Inl e \<Rightarrow> ([Fetch url], Inl e)
                           | Inr b \<Rightarrow> ([Fetch url], Inr (createObjectURL env b))))))"

definition video_job :: "string \<Rightarrow> string \<Rightarrow> aspectRatio \<Rightarrow> video_request" where
  "video_job imageBase64 prompt aspect =
     \<lparr> vid_model = ''veo-3.1-fast-generate-preview'', vid_prompt = prompt,
       imageBytes = cleanBase64 imageBase64, mimeType = ''image/png'',
       numberOfVideos = 1, resolution = ''720p'', vid_aspectRatio = aspect \<rparr>"

text \<open>
  The whole function: every throw inside the \<^verbatim>\<open>try\<close> block, the service's or the
  function's own, reaches the \<^verbatim>\<open>catch\<close> and leaves as
  \<^verbatim>\<open>new Error(formatError(e))\<close>.
\<close>

definition rethrow :: "thrown + 'a \<Rightarrow> thrown + 'a" where
  "rethrow r = (case r of Inl e \<Rightarrow> Inl (new_Error (formatError e)) | Inr v \<Rightarrow> Inr v)"

definition generateDroneVideo ::
  "env \<Rightarrow> string \<Rightarrow> string \<Rightarrow> aspectRatio \<Rightarrow> (effect list \<times> (thrown + string)) option"
where
  "generateDroneVideo env imageBase64 prompt aspect =
     (let job = video_job imageBase64 prompt aspect in
      case generateVideos env job of
        Inl e \<Rightarrow> Some ([GenerateVideos job], rethrow (Inl e))
      | Inr operation \<Rightarrow>
         (case poll env 0 operation [GenerateVideos job] of
            None \<Rightarrow> None
          | Some (tr, Inl e) \<Rightarrow> Some (tr, rethrow (Inl e))
          | Some (tr, Inr operation') \<Rightarrow>
              (case retrieve env operation' of (tr', r) \<Rightarrow> Some (tr @ tr', rethrow r))))"

subsection \<open>Preview and spot images\<close>

definition image_request :: "string \<Rightarrow> gc_request" where
  "image_request prompt =
     \<lparr> gc_model = ''gemini-2.5-flash-image'', gc_contents = prompt,
       responseMimeType = None, thinkingBudget = None, imageConfig = None \<rparr>"

text \<open>
  The loop over the parts of a response, which three functions share: the first part
  with inline data gives the data URI; \<open>None\<close> is the fall-through after the loop.
\<close>

fun first_inline :: "part list \<Rightarrow> string option" where
  "first_inline [] = None"
| "first_inline (p # ps) =
     (case inlineData p of
        Some d \<Rightarrow> Some (''data:image/png;base64,'' @ template (inline_data d))
      | None \<Rightarrow> first_inline ps)"

definition preview_prompts :: "string \<Rightarrow> string list" where
  "preview_prompts location =
     [''A hyper-realistic, 4k, wide-angle photograph of '' @ location @
        '', daytime, clear blue sky, iconic view.'',
      ''A cinematic sunset photo of '' @ location @
        '', warm golden hour lighting, dramatic shadows, photorealistic.'',
      ''An aerial drone shot of '' @ location @
        '', showing surroundings and landscape, high detail, photorealistic.'']"

text \<open>
  The callback given to \<^verbatim>\<open>prompts.map\<close>: its own \<^verbatim>\<open>try\<close>/\<^verbatim>\<open>catch\<close> turns a
  rejected request into \<^verbatim>\<open>null\<close>.
\<close>

definition preview_one :: "env \<Rightarrow> string \<Rightarrow> thrown + string option" where
  "preview_one env prompt =
     (case generateContent env (image_request prompt) of
        Inl e \<Rightarrow> Inr None
      | Inr response \<Rightarrow> Inr (first_inline (parts response)))"

text \<open>\<^verbatim>\<open>Promise.all\<close>: rejects as soon as one promise rejects.\<close>

fun promise_all :: "(thrown + 'a) list \<Rightarrow> thrown + 'a list" where
  "promise_all [] = Inr []"
| "promise_all (p # ps) =
     (case p of
        Inl e \<Rightarrow> Inl e
      | Inr v \<Rightarrow> (case promise_all ps of Inl e \<Rightarrow> Inl e | Inr vs \<Rightarrow> Inr (v # vs)))"

text \<open>\<^verbatim>\<open>results.filter(img => img !== null)\<close>\<close>

fun filter_non_null :: "'a option list \<Rightarrow> 'a list" where
  "filter_non_null [] = []"
| "filter_non_null (None # xs) = filter_non_null xs"
| "filter_non_null (Some x # xs) = x # filter_non_null xs"

definition generateLocationPreviews :: "env \<Rightarrow> string \<Rightarrow> effect list \<times> (thrown + string list)" where
  "generateLocationPreviews env location =
     (let prompts = preview_prompts location;
          promises = map (preview_one env) prompts
      in (map (\<lambda>prompt. GenerateContent (image_request prompt)) prompts,
          case promise_all promises of
            Inl error \<Rightarrow> Inr []
          | Inr results \<Rightarrow> Inr (filter_non_null results)))"

definition spot_prompt :: "string \<Rightarrow> string \<Rightarrow> string" where
  "spot_prompt spotName location =
     ''A photorealistic travel photography shot of the hidden spot \"'' @ spotName @
     ''\" in '' @ location @ ''. High quality, detailed, scenic, natural lighting.''"

definition generateSpotImage :: "env \<Rightarrow> string \<Rightarrow> string \<Rightarrow> effect list \<times> string option" where
  "generateSpotImage env spotName location =
     (let request = image_request (spot_prompt spotName location)
      in ([GenerateContent request],
          case generateContent env request of
            Inl e \<Rightarrow> None
          | Inr response \<Rightarrow> first_inline (parts response)))"

subsection \<open>generateDeepTravelItinerary\<close>

definition itinerary_prompt :: "string \<Rightarrow> string" where
  "itinerary_prompt location =
     ''Create a comprehensive, structured travel guide for '' @ location @
     ''.\<newline>'' @
     ''      \<newline>'' @
     ''      Return the response in strictly valid JSON format.\<newline>'' @
     ''      Structure the JSON with the following keys:\<newline>'' @
     ''      \<newline>'' @
     ''      {\<newline>'' @
     ''        \"confidence\": \"High\" | \"Medium\" | \"Low\",\<newline>'' @
     ''        \"overview\": \"Brief summary of physical features (forests, beaches, mountains, etc.)\",\<newline>'' @
     ''        \"disaster_profile\": {\<newline>'' @
     ''            \"zone_type\": \"e.g., Earthquake prone zone\",\<newline>'' @
     ''            \"risk_score\": \"X/10\",\<newline>'' @
     ''            \"details\": \"Brief explanation of risks\"\<newline>'' @
     ''        },\<newline>'' @
     ''        \"safety_measures\": [\"Measure 1\", \"Measure 2\"...],\<newline>'' @
     ''        \"itinerary\": [\"Day 1: ...\", \"Day 2: ...\", ...],\<newline>'' @
     ''        \"weather\": {\<newline>'' @
     ''            \"crowd_levels\": \"Brief text summary of crowds\",\<newline>'' @
     ''            \"crowd_curve\": [{\"month\": \"Jan\", \"score\": 45}, {\"month\": \"Feb\", \"score\": 50}, ... (for all 12 months, score 0-100 where 100 is max crowd)],\<newline>'' @
     ''            \"best_time_to_visit\": \"Months/Seasons\",\<newline>'' @
     ''            \"forecast_summary\": \"Typical weather description\"\<newline>'' @
     ''        },\<newline>'' @
     ''        \"photography\": {\<newline>'' @
     ''            \"basic_guide\": \"Best conditions, light level, terrain info\",\<newline>'' @
     ''            \"technical_settings\": {\<newline>'' @
     ''                \"iso\": \"Recommended ISO\",\<newline>'' @
     ''                \"shutter_speed\": \"Recommended Shutter\",\<newline>'' @
     ''                \"aperture\": \"Recommended Aperture\",\<newline>'' @
     ''                \"notes\": \"Other settings\"\<newline>'' @
     ''            }\<newline>'' @
     ''        },\<newline>'' @
     ''        \"trip_guide\": {\<newline>'' @
     ''            \"transport_system\": \"How to get around\",\<newline>'' @
     ''            \"travel_tips\": [\"Tip 1\", \"Tip 2\"...],\<newline>'' @
     ''            \"packing_suggestions\": [\"Item 1\", \"Item 2\"...],\<newline>'' @
     ''            \"common_scams\": \"Scams to watch out for\"\<newline>'' @
     ''        }\<newline>'' @
     ''      }\<newline>'' @
     ''      \<newline>'' @
     ''      Do not format markdown code blocks, just return raw JSON string.''"

definition itinerary_request :: "string \<Rightarrow> gc_request" where
  "itinerary_request location =
     \<lparr> gc_model = ''gemini-3-pro-preview'', gc_contents = itinerary_prompt location,
       responseMimeType = Some ''application/json'', thinkingBudget = Some 32768,
       imageConfig = None \<rparr>"

text \<open>
  The parsed value is returned as it is (\<^verbatim>\<open>return data as TravelPlan\<close>): the cast is a
  compile-time annotation and checks nothing.
\<close>

definition generateDeepTravelItinerary :: "env \<Rightarrow> string \<Rightarrow> effect list \<times> (thrown + json)" where
  "generateDeepTravelItinerary env location =
     (let request = itinerary_request location
      in ([GenerateContent request],
          rethrow
            (case generateContent env request of
               Inl e \<Rightarrow> Inl e
             | Inr response \<Rightarrow>
                 (case resp_text response of
                    None \<Rightarrow> Inl (new_Error ''The model returned an empty response.'')
                  | Some t \<Rightarrow>
                      if t = [] then Inl (new_Error ''The model returned an empty response.'')
                      else (case JSON_parse env t of
                              None \<Rightarrow> Inl (new_Error ''Failed to parse the travel plan data.'')
                            | Some data \<Rightarrow> Inr data)))))"

subsection \<open>createTravelChat\<close>

definition createTravelChat :: "string \<Rightarrow> chat" where
  "createTravelChat context =
     \<lparr> chat_model = ''gemini-3-pro-preview'',
       systemInstruction =
     ''You are a knowledgeable travel assistant. The user has just received a travel plan with the following details: \<newline>'' @
     ''      \<newline>'' @
     ''      '' @ context @
     ''\<newline>'' @
     ''      \<newline>'' @
     ''      Answer their follow-up questions about this location, the itinerary, or travel advice. Keep answers helpful and concise.'' \<rparr>"

subsection \<open>searchHiddenSpots\<close>

definition hidden_spots_request :: "string \<Rightarrow> gc_request" where
  "hidden_spots_request location =
     \<lparr> gc_model = ''gemini-2.5-flash'',
       gc_contents =
     ''Find exactly 5 unique hidden gems or secret spots in or near '' @ location @
     ''.\<newline>'' @
     ''      Return strictly a JSON array of objects. No markdown.\<newline>'' @
     ''      Format: [{\"name\": \"Spot Name\", \"description\": \"Short description of what it is\", \"location_hint\": \"Where is it roughly\"}]'',
       responseMimeType = Some ''application/json'', thinkingBudget = None,
       imageConfig = None \<rparr>"

text \<open>
  \<^verbatim>\<open>spots.slice(0, 5)\<close> on the parsed value, whatever it is: an array and a string
  have the method, \<^verbatim>\<open>null\<close> cannot be read through, and on any other value the
  method is missing. The inner \<^verbatim>\<open>catch\<close> takes both kinds of throw.
\<close>

fun slice5 :: "env \<Rightarrow> json \<Rightarrow> thrown + json" where
  "slice5 env (JArray spots) = Inr (JArray (take 5 spots))"
| "slice5 env (JString s) = Inr (JString (take 5 s))"
| "slice5 env v = Inl (TypeError env)"

definition searchHiddenSpots :: "env \<Rightarrow> string \<Rightarrow> effect list \<times> (thrown + json)" where
  "searchHiddenSpots env location =
     (let request = hidden_spots_request location
      in ([GenerateContent request],
          rethrow
            (case generateContent env request of
               Inl e \<Rightarrow> Inl e
             | Inr response \<Rightarrow>
                 (case resp_text response of
                    None \<Rightarrow> Inl (new_Error ''No results found for hidden spots.'')
                  | Some t \<Rightarrow>
                      if t = [] then Inl (new_Error ''No results found for hidden spots.'')
                      else (case JSON_parse env t of
                              None \<Rightarrow> Inl (new_Error ''Failed to parse hidden spots data.'')
                            | Some spots \<Rightarrow>
                                (case slice5 env spots of
                                   Inl e \<Rightarrow> Inl (new_Error ''Failed to parse hidden spots data.'')
                                 | Inr gems \<Rightarrow> Inr gems))))))"

subsection \<open>generateReferenceImage\<close>

definition reference_request :: "string \<Rightarrow> aspectRatio \<Rightarrow> gc_request" where
  "reference_request location aspect =
     (let ratioText = (if aspect = R16_9 then ''wide angle 16:9'' else ''vertical 9:16'');
          prompt = ''A cinematic, photorealistic, high-quality shot of '' @ location @ ''. '' @
                   ratioText @ '', clear view, sunny day.''
      in \<lparr> gc_model = ''gemini-2.5-flash-image'', gc_contents = prompt,
           responseMimeType = None, thinkingBudget = None, imageConfig = Some aspect \<rparr>)"

definition generateReferenceImage :: "env \<Rightarrow> string \<Rightarrow> aspectRatio \<Rightarrow> effect list \<times> (thrown + string)" where
  "generateReferenceImage env location aspect =
     (let request = reference_request location aspect
      in ([GenerateContent request],
          rethrow
            (case generateContent env request of
               Inl e \<Rightarrow> Inl e
             | Inr response \<Rightarrow>
                 (case first_inline (parts response) of
                    Some img \<Rightarrow> Inr img
                  | None \<Rightarrow> Inl (new_Error ''No image generated'')))))"

section \<open>The travel agent component\<close>

datatype TabSection = Overview | Disaster | Safety | Itinerary | Weather | Photography | Guide

datatype agent_mode = Plan | Hidden

datatype role = User | Model

record ChatMessage =
  msg_id :: string
  msg_role :: role
  msg_text :: string

text \<open>
  The component's state cells. \<open>travelData\<close> and \<open>hiddenSpots\<close> hold the values the
  services returned, which nothing has checked against their declared types.
\<close>

record agent_state =
  location :: string
  loading :: bool
  mode :: agent_mode
  activeTab :: TabSection
  error :: "string option"
  travelData :: "json option"
  images :: "string list"
  imagesLoading :: bool
  hiddenSpots :: "json option"
  hiddenSpotImages :: "string \<rightharpoonup> string"
  chatRef :: "chat option"
  chatMessages :: "ChatMessage list"
  chatInput :: string
  chatLoading :: bool

definition clearResults :: "agent_state \<Rightarrow> agent_state" where
  "clearResults s =
     s\<lparr> travelData := None, hiddenSpots := None, hiddenSpotImages := Map.empty,
        images := [], error := None, chatMessages := [], chatRef := None,
        activeTab := Overview \<rparr>"

subsection \<open>handleDeepPlan\<close>

text \<open>The \<^verbatim>\<open>then\<close> callback of the preview request.\<close>

definition previews_arrived :: "thrown + string list \<Rightarrow> agent_state \<Rightarrow> agent_state" where
  "previews_arrived r s =
     (case r of
        Inr imgs \<Rightarrow> s\<lparr> images := imgs, imagesLoading := False \<rparr>
      | Inl e \<Rightarrow> s)"

text \<open>What follows the \<^verbatim>\<open>await\<close>: the rest of the \<^verbatim>\<open>try\<close> block, or the \<^verbatim>\<open>catch\<close>, then the \<^verbatim>\<open>finally\<close>.\<close>

definition plan_arrived :: "env \<Rightarrow> thrown + json \<Rightarrow> agent_state \<Rightarrow> agent_state" where
  "plan_arrived env r s =
     (case r of
        Inr result \<Rightarrow>
          (let contextString = JSON_stringify env result
           in s\<lparr> travelData := Some result,
                 chatRef := Some (createTravelChat contextString),
                 chatMessages :=
                   [\<lparr> msg_id = ''init'', msg_role = Model,
                      msg_text = ''I have analyzed the location. Ask me anything about the plan or the destination!'' \<rparr>],
                 loading := False \<rparr>)
      | Inl e \<Rightarrow>
          s\<lparr> error := Some (or_str (message e) ''An unexpected error occurred while generating the plan.''),
             loading := False \<rparr>)"

text \<open>
  The preview request runs beside the awaited text request and the two may finish in
  either order; \<open>textFirst\<close> says which callback runs first.
\<close>

definition handleDeepPlan :: "env \<Rightarrow> bool \<Rightarrow> agent_state \<Rightarrow> effect list \<times> agent_state" where
  "handleDeepPlan env textFirst s =
     (if location s = [] then ([], s)
      else
        let s1 = (clearResults (s\<lparr> loading := True \<rparr>))\<lparr> mode := Plan, imagesLoading := True \<rparr>;
            (fx1, imgs) = generateLocationPreviews env (location s);
            (fx2, result) = generateDeepTravelItinerary env (location s)
        in (fx1 @ fx2,
            if textFirst then previews_arrived imgs (plan_arrived env result s1)
            else plan_arrived env result (previews_arrived imgs s1)))"

subsection \<open>handleHiddenSpots\<close>

text \<open>A value used as a property key or inside a template literal.\<close>

definition js_string :: "env \<Rightarrow> json option \<Rightarrow> string" where
  "js_string env v =
     (case v of
        None \<Rightarrow> ''undefined''
      | Some JNull \<Rightarrow> ''null''
      | Some (JBool b) \<Rightarrow> (if b then ''true'' else ''false'')
      | Some (JString s) \<Rightarrow> s
      | Some w \<Rightarrow> ToString env w)"

text \<open>\<^verbatim>\<open>spot.name\<close>: a read through \<^verbatim>\<open>null\<close> throws, a missing property is undefined.\<close>

definition spot_name :: "env \<Rightarrow> json \<Rightarrow> thrown + string" where
  "spot_name env spot =
     (case spot of
        JNull \<Rightarrow> Inl (TypeError env)
      | JObject props \<Rightarrow> Inr (js_string env (map_of props ''name''))
      | _ \<Rightarrow> Inr ''undefined'')"

text \<open>The \<^verbatim>\<open>forEach\<close>: one image request per spot, in order, until a callback throws.\<close>

fun spot_requests :: "env \<Rightarrow> string \<Rightarrow> json list \<Rightarrow> effect list \<times> thrown option" where
  "spot_requests env loc [] = ([], None)"
| "spot_requests env loc (spot # spots) =
     (case spot_name env spot of
        Inl e \<Rightarrow> ([], Some e)
      | Inr name \<Rightarrow>
          (case spot_requests env loc spots of
             (fx, r) \<Rightarrow> (fst (generateSpotImage env name loc) @ fx, r)))"

text \<open>The \<^verbatim>\<open>then\<close> callback of one spot's image request.\<close>

definition spot_image_arrived :: "string \<Rightarrow> string option \<Rightarrow> agent_state \<Rightarrow> agent_state" where
  "spot_image_arrived name imgUrl s =
     (case imgUrl of
        None \<Rightarrow> s
      | Some url \<Rightarrow>
          if url = [] then s
          else s\<lparr> hiddenSpotImages := (hiddenSpotImages s)(name \<mapsto> url) \<rparr>)"

definition search_failed :: "thrown \<Rightarrow> agent_state \<Rightarrow> agent_state" where
  "search_failed e s =
     s\<lparr> error := Some (or_str (message e) ''An unexpected error occurred while searching.''),
        loading := False \<rparr>"

definition handleHiddenSpots :: "env \<Rightarrow> agent_state \<Rightarrow> effect list \<times> agent_state" where
  "handleHiddenSpots env s =
     (if location s = [] then ([], s)
      else
        let s1 = (clearResults (s\<lparr> loading := True \<rparr>))\<lparr> mode := Hidden \<rparr>;
            (fx, r) = searchHiddenSpots env (location s)
        in (case r of
              Inl e \<Rightarrow> (fx, search_failed e s1)
            | Inr result \<Rightarrow>
                (let s2 = s1\<lparr> hiddenSpots := Some result \<rparr>
                 in (case result of
                       JArray spots \<Rightarrow>
                         (case spot_requests env (location s) spots of
                            (fx', None) \<Rightarrow> (fx @ fx', s2\<lparr> loading := False \<rparr>)
                          | (fx', Some e) \<Rightarrow> (fx @ fx', search_failed e s2))
                     | _ \<Rightarrow> (fx, search_failed (TypeError env) s2)))))"

subsection \<open>handleSendMessage\<close>

text \<open>
  \<^verbatim>\<open>String.prototype.trim\<close>. The model's characters are the code units below 256,
  where the white space is tab to carriage return, the space and the no-break space.
\<close>

definition is_space :: "char \<Rightarrow> bool" where
  "is_space c = (c \<in> set [CHR 0x09, CHR 0x0A, CHR 0x0B, CHR 0x0C, CHR 0x0D, CHR 0x20, CHR 0xA0])"

definition js_trim :: "string \<Rightarrow> string" where
  "js_trim s = rev (dropWhile is_space (rev (dropWhile is_space s)))"

text \<open>\<^verbatim>\<open>n.toString()\<close> of a non-negative integer.\<close>

fun show_nat :: "nat \<Rightarrow> string" where
  "show_nat n =
     (if n < 10 then [''0123456789'' ! n]
      else show_nat (n div 10) @ [''0123456789'' ! (n mod 10)])"

declare show_nat.simps [simp del]

text \<open>
  \<open>t1\<close> and \<open>t2\<close> are the two readings of \<^verbatim>\<open>Date.now()\<close>, before the request and
  after it.
\<close>

definition handleSendMessage :: "env \<Rightarrow> nat \<Rightarrow> nat \<Rightarrow> agent_state \<Rightarrow> effect list \<times> agent_state" where
  "handleSendMessage env t1 t2 s =
     (case chatRef s of
        None \<Rightarrow> ([PreventDefault], s)
      | Some session \<Rightarrow>
          if js_trim (chatInput s) = [] then ([PreventDefault], s)
          else
            let userMsg = chatInput s;
                s1 = s\<lparr> chatInput := [],
                        chatMessages := chatMessages s @
                          [\<lparr> msg_id = show_nat t1, msg_role = User, msg_text = userMsg \<rparr>],
                        chatLoading := True \<rparr>;
                reply = (case sendMessage env session userMsg of
                           Inr response \<Rightarrow> or_str response ''I couldn't generate a response.''
                         | Inl err \<Rightarrow> ''Sorry, I encountered an error answering that.'')
            in ([PreventDefault, SendMessage session userMsg],
                s1\<lparr> chatMessages := chatMessages s1 @
                       [\<lparr> msg_id = show_nat (t2 + 1), msg_role = Model, msg_text = reply \<rparr>],
                    chatLoading := False \<rparr>))"

section \<open>The video generator component\<close>

datatype video_status = Idle | Generating | Completed | Failed

record VideoGenerationState =
  status :: video_status
  vs_videoUri :: "string option"
  vs_error :: "string option"

record veo_state =
  locationName :: string
  videoState :: VideoGenerationState
  aspect :: aspectRatio
  loadingStep :: string

definition video_failed :: "thrown \<Rightarrow> veo_state \<Rightarrow> veo_state" where
  "video_failed e s =
     s\<lparr> videoState := \<lparr> status = Failed, vs_videoUri = None,
                          vs_error = Some (or_str (message e) ''Generation failed'') \<rparr>,
        loadingStep := [] \<rparr>"

text \<open>\<open>None\<close>: the handler never returns, because the polling loop inside never ends.\<close>

definition handleGenerate :: "env \<Rightarrow> veo_state \<Rightarrow> (effect list \<times> veo_state) option" where
  "handleGenerate env s =
     (if locationName s = [] then Some ([], s)
      else
        let s1 = s\<lparr> videoState := \<lparr> status = Generating, vs_videoUri = None, vs_error = None \<rparr>,
                    loadingStep := ''Locating and capturing view (Image)...'' \<rparr>
        in (case generateReferenceImage env (locationName s) (aspect s) of
              (fx1, Inl e) \<Rightarrow> Some (fx1, video_failed e s1)
            | (fx1, Inr base64Data) \<Rightarrow>
                (let s2 = s1\<lparr> loadingStep := ''Simulating drone flight physics (Veo 3.1)...'' \<rparr>;
                     prompt = ''Cinematic drone view of '' @ locationName s @
                              '', realistic, high quality, 4k, continuous movement, detailed surroundings''
                 in (case generateDroneVideo env base64Data prompt (aspect s) of
                       None \<Rightarrow> None
                     | Some (fx2, Inl e) \<Rightarrow> Some (fx1 @ fx2, video_failed e s2)
                     | Some (fx2, Inr videoUrl) \<Rightarrow>
                         Some (fx1 @ fx2,
                               s2\<lparr> videoState := \<lparr> status = Completed, vs_videoUri = Some videoUrl,
                                                     vs_error = None \<rparr>,
                                   loadingStep := [] \<rparr>)))))"

section \<open>Notions the properties use\<close>

text \<open>A status query among the effects of a run.\<close>

fun is_status_query :: "effect \<Rightarrow> bool" where
  "is_status_query (GetVideosOperation operation) = True"
| "is_status_query e = False"

text \<open>
  A data-URI prefix in general: \<^verbatim>\<open>data:\<close>, a media type with its parameters, and the
  comma that ends the header.
\<close>

definition data_uri_prefix :: "string \<Rightarrow> bool" where
  "data_uri_prefix p = (prefix ''data:'' p \<and> p \<noteq> [] \<and> last p = CHR '','' \<and> CHR '','' \<notin> set (butlast p))"

text \<open>The three prefixes the regular expression of \<^const>\<open>cleanBase64\<close> names.\<close>

definition image_prefixes :: "string list" where
  "image_prefixes = [''data:image/png;base64,'', ''data:image/jpeg;base64,'', ''data:image/jpg;base64,'']"

text \<open>Reading a property of a parsed value; a value that is not an object has none.\<close>

definition field :: "string \<Rightarrow> json \<Rightarrow> json option" where
  "field k v = (case v of JObject props \<Rightarrow> map_of props k | _ \<Rightarrow> None)"

text \<open>\<^verbatim>\<open>plan.weather.crowd_curve\<close>, when it is there and is an array.\<close>

definition crowd_curve :: "json \<Rightarrow> json list option" where
  "crowd_curve plan =
     (case field ''weather'' plan of
        None \<Rightarrow> None
      | Some weather \<Rightarrow>
          (case field ''crowd_curve'' weather of
             Some (JArray entries) \<Rightarrow> Some entries
           | _ \<Rightarrow> None))"

definition score_in_range :: "json \<Rightarrow> bool" where
  "score_in_range entry =
     (case field ''score'' entry of
        Some (JNumber x) \<Rightarrow> 0 \<le> x \<and> x \<le> 100
      | _ \<Rightarrow> False)"

text \<open>The property the specification asks of a plan: twelve entries, each score from 0 to 100.\<close>

definition twelve_month_curve :: "json \<Rightarrow> bool" where
  "twelve_month_curve plan =
     (case crowd_curve plan of
        None \<Rightarrow> False
      | Some entries \<Rightarrow> length entries = 12 \<and> list_all score_in_range entries)"

text \<open>What one preview request contributes to the final list.\<close>

definition preview_image :: "env \<Rightarrow> string \<Rightarrow> string list" where
  "preview_image env prompt =
     (case generateContent env (image_request prompt) of
        Inl e \<Rightarrow> []
      | Inr response \<Rightarrow> (case first_inline (parts response) of None \<Rightarrow> [] | Some img \<Rightarrow> [img]))"

section \<open>Scenarios\<close>

text \<open>Concrete services and states on which the properties below are run.\<close>

text \<open>A service that rejects every call.\<close>

definition no_service :: env where
  "no_service =
     \<lparr> generateContent = (\<lambda>request. Inl (new_Error ''offline'')),
       generateVideos = (\<lambda>request. Inl (new_Error ''offline'')),
       getVideosOperation = (\<lambda>k operation. Inl (new_Error ''offline'')),
       fetch = (\<lambda>url. Inl (new_Error ''offline'')),
       createObjectURL = (\<lambda>b. ''blob:'' @ b),
       sendMessage = (\<lambda>session userMsg. Inl (new_Error ''offline'')),
       JSON_parse = (\<lambda>t. None),
       JSON_stringify = (\<lambda>v. ''{}''),
       ToString = (\<lambda>v. ''[object Object]''),
       TypeError = Thrown (Some ''not a function'') (Some ''TypeError: not a function''),
       API_KEY = Some ''KEY'' \<rparr>"

text \<open>A job that is pending at its first two status queries and done, with a video, at the third.\<close>

definition job_ops :: "nat \<Rightarrow> operation" where
  "job_ops i =
     \<lparr> op_name = ''operations/veo-1'', op_done = (3 \<le> i), op_error = None,
       videoUri = (if 3 \<le> i then Some ''https://video.example/clip?alt=media'' else None) \<rparr>"

definition polling_env :: env where
  "polling_env =
     no_service
       \<lparr> generateVideos := (\<lambda>request. Inr (job_ops 0)),
         getVideosOperation := (\<lambda>k operation. Inr (job_ops (Suc k))),
         fetch := (\<lambda>url. Inr \<lparr> ok = True, blob = Inr ''MP4'' \<rparr>) \<rparr>"

text \<open>A job that fails at its first status query, with its own error text.\<close>

definition failed_ops :: "nat \<Rightarrow> operation" where
  "failed_ops i =
     \<lparr> op_name = ''operations/veo-2'', op_done = (1 \<le> i),
       op_error = (if 1 \<le> i then Some (OpError (Some ''The prompt could not be rendered'')) else None),
       videoUri = None \<rparr>"

definition failing_env :: env where
  "failing_env =
     no_service
       \<lparr> generateVideos := (\<lambda>request. Inr (failed_ops 0)),
         getVideosOperation := (\<lambda>k operation. Inr (failed_ops (Suc k))) \<rparr>"

text \<open>A service whose structured answers are fixed texts, parsed by a fixed table.\<close>

definition text_env :: "string \<Rightarrow> (string \<Rightarrow> json option) \<Rightarrow> env" where
  "text_env t parse =
     no_service
       \<lparr> generateContent := (\<lambda>request.
            if gc_model request = ''gemini-2.5-flash-image'' then Inl (new_Error ''offline'')
            else Inr \<lparr> resp_text = Some t, parts = [] \<rparr>),
         JSON_parse := parse \<rparr>"

text \<open>A plan whose crowd curve has one entry, with a score of 150.\<close>

definition short_plan :: json where
  "short_plan =
     JObject [(''confidence'', JString ''High''),
              (''weather'', JObject [(''crowd_levels'', JString ''busy''),
                                     (''crowd_curve'',
                                        JArray [JObject [(''month'', JString ''Jan''), (''score'', JNumber 150)]])])]"

text \<open>A plan with all twelve months.\<close>

definition full_plan :: json where
  "full_plan =
     JObject [(''confidence'', JString ''High''),
              (''weather'', JObject [(''crowd_levels'', JString ''busy in spring''),
                 (''crowd_curve'',
                    JArray (map (\<lambda>(m, x). JObject [(''month'', JString m), (''score'', JNumber x)])
                      [(''Jan'', 45), (''Feb'', 50), (''Mar'', 80), (''Apr'', 100), (''May'', 70),
                       (''Jun'', 55), (''Jul'', 60), (''Aug'', 65), (''Sep'', 50), (''Oct'', 75),
                       (''Nov'', 90), (''Dec'', 0)]))])]"

definition short_plan_env :: env where
  "short_plan_env = text_env ''{short}'' (map_of [(''{short}'', short_plan)])"

definition full_plan_env :: env where
  "full_plan_env = text_env ''{full}'' (map_of [(''{full}'', full_plan)])"

definition garbled_env :: env where
  "garbled_env = text_env ''Sure! Here is your plan'' (map_of [])"

definition gem :: "string \<Rightarrow> json" where
  "gem n = JObject [(''name'', JString n), (''description'', JString ''quiet''),
                    (''location_hint'', JString ''north'')]"

text \<open>The component as it is first rendered, for a given initial location.\<close>

definition initial_agent :: "string \<Rightarrow> agent_state" where
  "initial_agent loc =
     \<lparr> location = loc, loading = False, mode = Plan, activeTab = Overview, error = None,
       travelData = None, images = [], imagesLoading = False, hiddenSpots = None,
       hiddenSpotImages = Map.empty, chatRef = None, chatMessages = [], chatInput = [],
       chatLoading = False \<rparr>"

text \<open>A component that shows a plan and its chat, with the given location and chat input.\<close>

definition agent_with_plan :: "string \<Rightarrow> string \<Rightarrow> agent_state" where
  "agent_with_plan loc input =
     (initial_agent loc)
       \<lparr> travelData := Some full_plan, images := [''data:image/png;base64,DAY''],
         chatRef := Some (createTravelChat ''{}''),
         chatMessages := [\<lparr> msg_id = ''init'', msg_role = Model, msg_text = ''Ask me anything'' \<rparr>],
         chatInput := input \<rparr>"

definition initial_veo :: "string \<Rightarrow> veo_state" where
  "initial_veo loc =
     \<lparr> locationName = loc,
       videoState = \<lparr> status = Idle, vs_videoUri = None, vs_error = None \<rparr>,
       aspect = R16_9, loadingStep = [] \<rparr>"

text \<open>
  A service that answers the text request with the full plan and only the sunset
  preview with an image.
\<close>

definition sunset_only_env :: env where
  "sunset_only_env =
     full_plan_env
       \<lparr> generateContent := (\<lambda>request.
            if gc_model request = ''gemini-2.5-flash-image'' then
              (if prefix ''A cinematic sunset photo'' (gc_contents request)
               then Inr \<lparr> resp_text = None,
                          parts = [\<lparr> inlineData = None \<rparr>,
                                   \<lparr> inlineData = Some (Inline (Some ''SUNSET'')) \<rparr>] \<rparr>
               else Inl (new_Error ''503 overloaded''))
            else generateContent full_plan_env request) \<rparr>"

section \<open>Properties of the polling loop\<close>

text \<open>
  A job that stays pending for \<open>n\<close> queries and is done at the next: the loop makes
  exactly those \<open>n\<close> queries, each after a wait of 5000 ms, each carrying the operation
  that the query before returned.
\<close>

lemma poll_pending:
  assumes "\<forall>i<n. \<not> op_done (ops i) \<and> getVideosOperation env (k + i) (ops i) = Inr (ops (Suc i))"
      and "op_done (ops n)"
  shows "poll env k (ops 0) tr =
           Some (tr @ concat (map (\<lambda>i. [Wait 5000, GetVideosOperation (ops i)]) [0..<n]), Inr (ops n))"
  using assms
proof (induction n arbitrary: k ops tr)
  case 0
  then show ?case by (simp add: poll.simps)
next
  case (Suc n)
  let ?ops = "\<lambda>i. ops (Suc i)"
  from Suc.prems(1) have first: "\<not> op_done (ops 0)" "getVideosOperation env k (ops 0) = Inr (ops 1)"
    by (auto dest: spec [of _ 0])
  have rest: "\<forall>i<n. \<not> op_done (?ops i) \<and> getVideosOperation env (Suc k + i) (?ops i) = Inr (?ops (Suc i))"
    using Suc.prems(1) by auto
  have IH: "poll env (Suc k) (?ops 0) (tr @ [Wait 5000, GetVideosOperation (ops 0)]) =
      Some ((tr @ [Wait 5000, GetVideosOperation (ops 0)]) @
            concat (map (\<lambda>i. [Wait 5000, GetVideosOperation (?ops i)]) [0..<n]), Inr (?ops n))"
    using Suc.IH [OF rest] Suc.prems(2) by blast
  have shift: "[0..<Suc n] = 0 # map Suc [0..<n]"
    by (simp add: upt_conv_Cons map_Suc_upt del: upt_Suc)
  show ?case
    unfolding shift
    by (subst poll.simps) (simp add: first IH comp_def)
qed

text \<open>The loop only adds to the trace.\<close>

lemma poll_extends:
  "poll env k operation tr = Some y \<Longrightarrow> prefix tr (fst y)"
proof (induction rule: poll.raw_induct [rotated 1, consumes 1])
  case (1 poll' env k operation tr y)
  show ?case
  proof (cases "op_done operation")
    case True
    with 1(2) show ?thesis by auto
  next
    case False
    show ?thesis
    proof (cases "getVideosOperation env k operation")
      case (Inl e)
      with False 1(2) show ?thesis by auto
    next
      case (Inr operation')
      with False 1(2) have "poll' env (Suc k) operation' (tr @ [Wait 5000, GetVideosOperation operation]) = Some y"
        by simp
      from 1(1) [OF this] show ?thesis
        by (meson append_prefixD)
    qed
  qed
qed

text \<open>A job that never reaches a terminal state keeps the loop running for ever.\<close>

lemma poll_forever:
  assumes "\<forall>i. \<not> op_done (ops i) \<and> getVideosOperation env (k + i) (ops i) = Inr (ops (Suc i))"
  shows "poll env k (ops 0) tr = None"
proof -
  have "poll env k operation tr = Some y \<Longrightarrow>
        \<not> (\<exists>ops. ops 0 = operation \<and>
              (\<forall>i. \<not> op_done (ops i) \<and> getVideosOperation env (k + i) (ops i) = Inr (ops (Suc i))))"
    for operation y
  proof (induction rule: poll.raw_induct [rotated 1, consumes 1])
    case (1 poll' env k operation tr y)
    show ?case
    proof
      assume "\<exists>ops. ops 0 = operation \<and>
              (\<forall>i. \<not> op_done (ops i) \<and> getVideosOperation env (k + i) (ops i) = Inr (ops (Suc i)))"
      then obtain ops where o0: "ops 0 = operation"
        and run: "\<And>i. \<not> op_done (ops i) \<and> getVideosOperation env (k + i) (ops i) = Inr (ops (Suc i))"
        by blast
      from run [of 0] o0 have nd: "\<not> op_done operation"
        and nxt: "getVideosOperation env k operation = Inr (ops 1)" by auto
      with 1(2) have "poll' env (Suc k) (ops 1) (tr @ [Wait 5000, GetVideosOperation operation]) = Some y"
        by simp
      from 1(1) [OF this] have "\<not> (\<exists>ops'. ops' 0 = ops 1 \<and>
              (\<forall>i. \<not> op_done (ops' i) \<and> getVideosOperation env (Suc k + i) (ops' i) = Inr (ops' (Suc i))))" .
      moreover have "(\<lambda>i. ops (Suc i)) 0 = ops 1 \<and>
              (\<forall>i. \<not> op_done (ops (Suc i)) \<and> getVideosOperation env (Suc k + i) (ops (Suc i)) = Inr (ops (Suc (Suc i))))"
        using run [of "Suc i" for i] by simp
      ultimately show False
        by (elim notE) (rule exI [of _ "\<lambda>i. ops (Suc i)"], simp)
    qed
  qed
  note never = this
  show ?thesis
  proof (cases "poll env k (ops 0) tr")
    case None
    then show ?thesis .
  next
    case (Some y)
    from never [OF Some] assms show ?thesis by blast
  qed
qed

lemma count_status_queries:
  "length (filter is_status_query (concat (map (\<lambda>i. [Wait 5000, GetVideosOperation (ops i)]) [0..<n]))) = n"
  by (induction n) simp_all

lemma status_queries_of_loop:
  assumes "GetVideosOperation operation \<in>
             set (concat (map (\<lambda>i. [Wait 5000, GetVideosOperation (ops i)]) [0..<n]))"
  shows "\<exists>i<n. operation = ops i"
  using assms by (auto split: if_splits)

text \<open>
  C1. If the submitted job is not done, its first \<open>n\<close> status queries leave it pending
  and the last of them reports it done without error, then \<^const>\<open>generateDroneVideo\<close>
  makes exactly \<open>n\<close> status queries, each right after a wait of 5000 ms and each passing
  the operation most recently returned (so all under the one name, when the service keeps
  the job's name), then fetches the video and resolves. This holds
  for every \<open>n\<close>: no retry bound exists. With \<open>n = 3\<close> it is the job that reports
  pending twice and success on the third query.
\<close>

theorem generateDroneVideo_polls_until_done:
  assumes submit: "generateVideos env (video_job imageBase64 prompt ar) = Inr (ops 0)"
      and pending: "\<forall>i<n. \<not> op_done (ops i) \<and> getVideosOperation env i (ops i) = Inr (ops (Suc i))"
      and finished: "op_done (ops n)" "op_error (ops n) = None"
      and link: "videoUri (ops n) = Some downloadLink" "downloadLink \<noteq> []"
      and download: "fetch env (downloadLink @ ''&key='' @ template (API_KEY env)) = Inr response"
                    "ok response" "blob response = Inr body"
  shows "\<exists>tr. generateDroneVideo env imageBase64 prompt ar = Some (tr, Inr (createObjectURL env body))
           \<and> tr = GenerateVideos (video_job imageBase64 prompt ar) #
                  concat (map (\<lambda>i. [Wait 5000, GetVideosOperation (ops i)]) [0..<n]) @
                  [Fetch (downloadLink @ ''&key='' @ template (API_KEY env))]
           \<and> length (filter is_status_query tr) = n
           \<and> ((\<forall>i<n. op_name (ops i) = op_name (ops 0)) \<longrightarrow>
                (\<forall>operation. GetVideosOperation operation \<in> set tr \<longrightarrow>
                   op_name operation = op_name (ops 0)))"
proof -
  let ?job = "video_job imageBase64 prompt ar"
  let ?loop = "concat (map (\<lambda>i. [Wait 5000, GetVideosOperation (ops i)]) [0..<n])"
  let ?url = "downloadLink @ ''&key='' @ template (API_KEY env)"
  let ?tr = "GenerateVideos ?job # ?loop @ [Fetch ?url]"
  have "poll env 0 (ops 0) [GenerateVideos ?job] = Some ([GenerateVideos ?job] @ ?loop, Inr (ops n))"
    using pending finished(1) by (intro poll_pending) simp_all
  moreover have "retrieve env (ops n) = ([Fetch ?url], Inr (createObjectURL env body))"
    using finished(2) link download by (simp add: retrieve_def Let_def)
  ultimately have run: "generateDroneVideo env imageBase64 prompt ar =
      Some (?tr, Inr (createObjectURL env body))"
    using submit by (simp add: generateDroneVideo_def Let_def rethrow_def)
  have count: "length (filter is_status_query ?tr) = n"
    by (simp add: count_status_queries)
  have names: "(\<forall>i<n. op_name (ops i) = op_name (ops 0)) \<longrightarrow>
                (\<forall>operation. GetVideosOperation operation \<in> set ?tr \<longrightarrow>
                   op_name operation = op_name (ops 0))"
  proof (intro impI allI)
    fix operation
    assume same: "\<forall>i<n. op_name (ops i) = op_name (ops 0)"
    assume "GetVideosOperation operation \<in> set ?tr"
    then have "GetVideosOperation operation \<in> set ?loop"
      by simp
    then obtain i where "i < n" "operation = ops i"
      using status_queries_of_loop by blast
    with same show "op_name operation = op_name (ops 0)"
      by blast
  qed
  show ?thesis
    by (rule exI [of _ ?tr]) (intro conjI run refl count names)
qed

theorem generateDroneVideo_polls_until_done_witness:
  "generateDroneVideo polling_env ''data:image/png;base64,AAAA'' ''fly over'' R16_9 =
     Some ([GenerateVideos (video_job ''data:image/png;base64,AAAA'' ''fly over'' R16_9),
            Wait 5000, GetVideosOperation (job_ops 0),
            Wait 5000, GetVideosOperation (job_ops 1),
            Wait 5000, GetVideosOperation (job_ops 2),
            Fetch ''https://video.example/clip?alt=media&key=KEY''],
           Inr ''blob:MP4'')"
  using generateDroneVideo_polls_until_done
          [of polling_env "''data:image/png;base64,AAAA''" "''fly over''" R16_9 job_ops 3
              "''https://video.example/clip?alt=media''"
              "\<lparr> ok = True, blob = Inr ''MP4'' \<rparr>" "''MP4''"]
  by (simp add: polling_env_def no_service_def job_ops_def template_def upt_rec)

section \<open>Properties of the video stage\<close>

text \<open>A run whose job reaches a terminal state after \<open>n\<close> queries, whatever that state is.\<close>

lemma generateDroneVideo_terminal:
  assumes "generateVideos env (video_job imageBase64 prompt ar) = Inr (ops 0)"
      and "\<forall>i<n. \<not> op_done (ops i) \<and> getVideosOperation env i (ops i) = Inr (ops (Suc i))"
      and "op_done (ops n)"
  shows "generateDroneVideo env imageBase64 prompt ar =
           Some (GenerateVideos (video_job imageBase64 prompt ar) #
                 concat (map (\<lambda>i. [Wait 5000, GetVideosOperation (ops i)]) [0..<n]) @
                 fst (retrieve env (ops n)),
                 rethrow (snd (retrieve env (ops n))))"
proof -
  let ?job = "video_job imageBase64 prompt ar"
  have "poll env 0 (ops 0) [GenerateVideos ?job] =
          Some ([GenerateVideos ?job] @
                concat (map (\<lambda>i. [Wait 5000, GetVideosOperation (ops i)]) [0..<n]), Inr (ops n))"
    using assms(2,3) by (intro poll_pending) simp_all
  with assms(1) show ?thesis
    by (simp add: generateDroneVideo_def Let_def split: prod.split)
qed

lemma formatError_plain:
  assumes "t \<noteq> []"
      and "\<forall>needle \<in> set [''API key'', ''authentication'', ''429'', ''503'', ''SAFETY'']. \<not> str_includes t needle"
  shows "formatError (new_Error t) = ''AI Request Failed: '' @ t"
  using assms by (simp add: formatError_def new_Error_def or_str_def)

text \<open>
  The job's text does not leave the function as it is: the \<^verbatim>\<open>catch\<close> wraps it.
\<close>

theorem generateDroneVideo_job_error_not_verbatim:
  "map_option snd (generateDroneVideo failing_env ''AAAA'' ''fly over'' R16_9) =
     Some (Inl (new_Error ''AI Request Failed: The prompt could not be rendered''))
   \<and> op_error (failed_ops 1) = Some (OpError (Some ''The prompt could not be rendered''))
   \<and> message (new_Error ''AI Request Failed: The prompt could not be rendered'')
       \<noteq> Some ''The prompt could not be rendered''"
proof -
  have "generateDroneVideo failing_env ''AAAA'' ''fly over'' R16_9 =
          Some (GenerateVideos (video_job ''AAAA'' ''fly over'' R16_9) #
                 concat (map (\<lambda>i. [Wait 5000, GetVideosOperation (failed_ops i)]) [0..<1]) @
                 fst (retrieve failing_env (failed_ops 1)),
                 rethrow (snd (retrieve failing_env (failed_ops 1))))"
    by (rule generateDroneVideo_terminal) (simp_all add: failing_env_def no_service_def failed_ops_def)
  moreover have "rethrow (snd (retrieve failing_env (failed_ops 1))) =
      (Inl (new_Error ''AI Request Failed: The prompt could not be rendered'') :: thrown + string)"
    by (simp add: retrieve_def failed_ops_def rethrow_def or_str_def formatError_def new_Error_def)
  ultimately show ?thesis
    by (simp add: failed_ops_def new_Error_def)
qed

text \<open>
  C3. When the job's terminal state is an error, \<^const>\<open>generateDroneVideo\<close> fails with the
  message that \<^const>\<open>formatError\<close> makes of the job's text (or of ``Video generation
  failed'' when the job gives none): the text behind ``AI Request Failed: '' when it
  contains none of the five substrings \<^const>\<open>formatError\<close> looks for, one of the four fixed
  messages otherwise.
\<close>

theorem generateDroneVideo_job_error:
  assumes submit: "generateVideos env (video_job imageBase64 prompt ar) = Inr (ops 0)"
      and pending: "\<forall>i<n. \<not> op_done (ops i) \<and> getVideosOperation env i (ops i) = Inr (ops (Suc i))"
      and failed: "op_done (ops n)" "op_error (ops n) = Some (OpError jobText)"
  shows "map_option snd (generateDroneVideo env imageBase64 prompt ar) =
           Some (Inl (new_Error (formatError (new_Error (or_str jobText ''Video generation failed'')))))
         \<and> (\<forall>t. jobText = Some t \<and> t \<noteq> [] \<and>
                 (\<forall>needle \<in> set [''API key'', ''authentication'', ''429'', ''503'', ''SAFETY''].
                    \<not> str_includes t needle) \<longrightarrow>
               map_option snd (generateDroneVideo env imageBase64 prompt ar) =
                 Some (Inl (new_Error (''AI Request Failed: '' @ t))))"
proof -
  have r: "retrieve env (ops n) =
             ([], Inl (new_Error (or_str jobText ''Video generation failed'')))"
    using failed(2) by (simp add: retrieve_def)
  have run: "map_option snd (generateDroneVideo env imageBase64 prompt ar) =
           Some (Inl (new_Error (formatError (new_Error (or_str jobText ''Video generation failed'')))))"
    by (simp add: generateDroneVideo_terminal [OF submit pending failed(1)] r rethrow_def)
  have plain: "\<forall>t. jobText = Some t \<and> t \<noteq> [] \<and>
                 (\<forall>needle \<in> set [''API key'', ''authentication'', ''429'', ''503'', ''SAFETY''].
                    \<not> str_includes t needle) \<longrightarrow>
               map_option snd (generateDroneVideo env imageBase64 prompt ar) =
                 Some (Inl (new_Error (''AI Request Failed: '' @ t)))"
  proof (intro allI impI)
    fix t
    assume h: "jobText = Some t \<and> t \<noteq> [] \<and>
                 (\<forall>needle \<in> set [''API key'', ''authentication'', ''429'', ''503'', ''SAFETY''].
                    \<not> str_includes t needle)"
    then have "or_str jobText ''Video generation failed'' = t"
      by (simp add: or_str_def)
    moreover from h have "formatError (new_Error t) = ''AI Request Failed: '' @ t"
      by (intro formatError_plain) simp_all
    ultimately have "formatError (new_Error (or_str jobText ''Video generation failed'')) =
        ''AI Request Failed: '' @ t"
      by (simp only:)
    then show "map_option snd (generateDroneVideo env imageBase64 prompt ar) =
                 Some (Inl (new_Error (''AI Request Failed: '' @ t)))"
      using run by (simp only:)
  qed
  from run plain show ?thesis by (rule conjI)
qed

theorem generateDroneVideo_job_error_witness:
  "map_option snd (generateDroneVideo failing_env ''AAAA'' ''fly over'' R16_9) =
     Some (Inl (new_Error ''AI Request Failed: The prompt could not be rendered''))"
  using generateDroneVideo_job_error
          [of failing_env "''AAAA''" "''fly over''" R16_9 failed_ops 1
              "Some ''The prompt could not be rendered''"]
  by (simp add: failing_env_def no_service_def failed_ops_def)

lemma generateDroneVideo_submits_first:
  assumes "generateDroneVideo env imageBase64 prompt ar = Some (tr, r)"
  shows "\<exists>tr'. tr = GenerateVideos (video_job imageBase64 prompt ar) # tr'"
proof (cases "generateVideos env (video_job imageBase64 prompt ar)")
  case (Inl e)
  with assms show ?thesis
    by (auto simp: generateDroneVideo_def Let_def)
next
  case (Inr operation)
  let ?job = "video_job imageBase64 prompt ar"
  from assms Inr obtain tr0 r0 where p: "poll env 0 operation [GenerateVideos ?job] = Some (tr0, r0)"
    and ext: "prefix tr0 tr"
    by (auto simp: generateDroneVideo_def Let_def split: option.splits sum.splits prod.splits)
  from poll_extends [OF p] have "prefix [GenerateVideos ?job] tr0" by simp
  then have "prefix [GenerateVideos ?job] tr" using ext by (rule prefix_order.trans)
  then show ?thesis by (auto simp: prefix_def)
qed

lemma strip_first_hit:
  "prefix p s \<Longrightarrow> \<forall>q \<in> set ps. \<not> prefix q s \<Longrightarrow> strip_first (ps @ p # qs) s = drop (length p) s"
  by (induction ps) auto

lemma strip_first_miss:
  "\<forall>q \<in> set ps. \<not> prefix q s \<Longrightarrow> strip_first ps s = s"
  by (induction ps) auto

lemma cleanBase64_strips:
  assumes "pre \<in> set image_prefixes"
  shows "cleanBase64 (pre @ rest) = rest"
  using assms by (auto simp: cleanBase64_def image_prefixes_def)

text \<open>
  C7. The image bytes of the submitted job are the reference image without its leading
  \<^verbatim>\<open>data:image/png;base64,\<close>, \<^verbatim>\<open>data:image/jpeg;base64,\<close> or
  \<^verbatim>\<open>data:image/jpg;base64,\<close>; a string that starts with none of the three is
  submitted as it is; and the job is the first thing a run sends.
\<close>

theorem video_stage_strips_image_prefix:
  "(pre \<in> set image_prefixes \<longrightarrow> imageBytes (video_job (pre @ rest) prompt ar) = rest)
   \<and> ((\<forall>p \<in> set image_prefixes. \<not> prefix p s) \<longrightarrow> imageBytes (video_job s prompt ar) = s)
   \<and> (generateDroneVideo env s prompt ar = Some (tr, r) \<longrightarrow>
        (\<exists>tr'. tr = GenerateVideos (video_job s prompt ar) # tr'))"
proof (intro conjI impI)
  assume "pre \<in> set image_prefixes"
  then show "imageBytes (video_job (pre @ rest) prompt ar) = rest"
    by (simp add: video_job_def cleanBase64_strips)
next
  assume "\<forall>p \<in> set image_prefixes. \<not> prefix p s"
  then have "strip_first image_prefixes s = s" by (rule strip_first_miss)
  then show "imageBytes (video_job s prompt ar) = s"
    by (simp add: video_job_def cleanBase64_def image_prefixes_def)
next
  assume "generateDroneVideo env s prompt ar = Some (tr, r)"
  then show "\<exists>tr'. tr = GenerateVideos (video_job s prompt ar) # tr'"
    by (rule generateDroneVideo_submits_first)
qed

text \<open>A data URI of another image type keeps its prefix.\<close>

theorem video_stage_keeps_other_data_uri:
  "data_uri_prefix ''data:image/webp;base64,''
   \<and> imageBytes (video_job (''data:image/webp;base64,'' @ ''UklGRg=='') ''fly over'' R16_9) \<noteq> ''UklGRg==''"
  by (simp add: data_uri_prefix_def video_job_def cleanBase64_def)

theorem video_stage_strips_image_prefix_witness:
  "imageBytes (video_job ''data:image/jpeg;base64,/9j/4AAQ'' ''fly over'' R16_9) = ''/9j/4AAQ''
   \<and> imageBytes (video_job ''data:image/webp;base64,UklGRg=='' ''fly over'' R16_9) =
       ''data:image/webp;base64,UklGRg==''
   \<and> (\<exists>tr'. fst (the (generateDroneVideo polling_env ''data:image/png;base64,AAAA'' ''fly over'' R16_9)) =
         GenerateVideos (video_job ''data:image/png;base64,AAAA'' ''fly over'' R16_9) # tr')"
proof -
  have h1: "''data:image/jpeg;base64,'' \<in> set image_prefixes"
    by (simp add: image_prefixes_def)
  have h2: "\<forall>p \<in> set image_prefixes. \<not> prefix p ''data:image/webp;base64,UklGRg==''"
    by (simp add: image_prefixes_def)
  have run: "generateDroneVideo polling_env ''data:image/png;base64,AAAA'' ''fly over'' R16_9 =
          Some (GenerateVideos (video_job ''data:image/png;base64,AAAA'' ''fly over'' R16_9) #
                 concat (map (\<lambda>i. [Wait 5000, GetVideosOperation (job_ops i)]) [0..<3]) @
                 fst (retrieve polling_env (job_ops 3)),
                 rethrow (snd (retrieve polling_env (job_ops 3))))"
    by (rule generateDroneVideo_terminal) (simp_all add: polling_env_def no_service_def job_ops_def)
  have a: "imageBytes (video_job (''data:image/jpeg;base64,'' @ ''/9j/4AAQ'') ''fly over'' R16_9) = ''/9j/4AAQ''"
    using video_stage_strips_image_prefix [where pre = "''data:image/jpeg;base64,''"] h1 by blast
  have b: "imageBytes (video_job ''data:image/webp;base64,UklGRg=='' ''fly over'' R16_9) =
       ''data:image/webp;base64,UklGRg==''"
    using video_stage_strips_image_prefix [where s = "''data:image/webp;base64,UklGRg==''"] h2 by blast
  have c: "\<exists>tr'. fst (the (generateDroneVideo polling_env ''data:image/png;base64,AAAA'' ''fly over'' R16_9)) =
         GenerateVideos (video_job ''data:image/png;base64,AAAA'' ''fly over'' R16_9) # tr'"
    using video_stage_strips_image_prefix
            [where env = polling_env and s = "''data:image/png;base64,AAAA''"
               and prompt = "''fly over''" and ar = R16_9] run
    by simp
  from a b c show ?thesis by simp
qed

section \<open>Properties of the structured calls\<close>

lemma rethrow_Inr [simp]: "rethrow (Inr v) = Inr v"
  by (simp add: rethrow_def)

lemma rethrow_Inl [simp]: "rethrow (Inl e) = Inl (new_Error (formatError e))"
  by (simp add: rethrow_def)

lemma rethrow_eq_Inr [simp]: "rethrow r = Inr v \<longleftrightarrow> r = Inr v"
  by (cases r) simp_all

text \<open>
  C2. When the response text parses to an array, \<^const>\<open>searchHiddenSpots\<close> returns its first
  five elements: the result has the upstream length or 5, whichever is smaller, so never
  more than 5, and 3 for an upstream of 3.
\<close>

theorem searchHiddenSpots_at_most_5:
  assumes "generateContent env (hidden_spots_request loc) = Inr response"
      and "resp_text response = Some t" "t \<noteq> []"
      and "JSON_parse env t = Some (JArray upstream)"
  shows "\<exists>gems. snd (searchHiddenSpots env loc) = Inr (JArray gems)
           \<and> gems = take 5 upstream
           \<and> length gems = min (length upstream) 5
           \<and> length gems \<le> 5"
  using assms by (simp add: searchHiddenSpots_def Let_def min.commute)

theorem searchHiddenSpots_at_most_5_witness:
  "snd (searchHiddenSpots
          (text_env ''[3 gems]'' (map_of [(''[3 gems]'', JArray (map gem [''a'', ''b'', ''c'']))]))
          ''Kyoto, Japan'') = Inr (JArray [gem ''a'', gem ''b'', gem ''c''])
   \<and> snd (searchHiddenSpots
          (text_env ''[7 gems]'' (map_of [(''[7 gems]'', JArray (map gem [''a'', ''b'', ''c'', ''d'', ''e'', ''f'', ''g'']))]))
          ''Kyoto, Japan'') = Inr (JArray [gem ''a'', gem ''b'', gem ''c'', gem ''d'', gem ''e''])"
proof -
  let ?e3 = "text_env ''[3 gems]'' (map_of [(''[3 gems]'', JArray (map gem [''a'', ''b'', ''c'']))])"
  let ?e7 = "text_env ''[7 gems]'' (map_of [(''[7 gems]'', JArray (map gem [''a'', ''b'', ''c'', ''d'', ''e'', ''f'', ''g'']))])"
  have "\<exists>gems. snd (searchHiddenSpots ?e3 ''Kyoto, Japan'') = Inr (JArray gems)
           \<and> gems = take 5 (map gem [''a'', ''b'', ''c''])
           \<and> length gems = min (length (map gem [''a'', ''b'', ''c''])) 5 \<and> length gems \<le> 5"
    by (rule searchHiddenSpots_at_most_5 [where t = "''[3 gems]''" and response = "\<lparr> resp_text = Some ''[3 gems]'', parts = [] \<rparr>"])
       (simp_all add: text_env_def no_service_def hidden_spots_request_def)
  moreover have "\<exists>gems. snd (searchHiddenSpots ?e7 ''Kyoto, Japan'') = Inr (JArray gems)
           \<and> gems = take 5 (map gem [''a'', ''b'', ''c'', ''d'', ''e'', ''f'', ''g''])
           \<and> length gems = min (length (map gem [''a'', ''b'', ''c'', ''d'', ''e'', ''f'', ''g''])) 5 \<and> length gems \<le> 5"
    by (rule searchHiddenSpots_at_most_5 [where t = "''[7 gems]''" and response = "\<lparr> resp_text = Some ''[7 gems]'', parts = [] \<rparr>"])
       (simp_all add: text_env_def no_service_def hidden_spots_request_def)
  ultimately show ?thesis by simp
qed

lemma formatError_own_messages:
  "formatError (new_Error ''The model returned an empty response.'') =
     ''AI Request Failed: The model returned an empty response.''"
  "formatError (new_Error ''Failed to parse the travel plan data.'') =
     ''AI Request Failed: Failed to parse the travel plan data.''"
  "formatError (new_Error ''No results found for hidden spots.'') =
     ''AI Request Failed: No results found for hidden spots.''"
  "formatError (new_Error ''Failed to parse hidden spots data.'') =
     ''AI Request Failed: Failed to parse hidden spots data.''"
  by (simp_all add: formatError_def new_Error_def or_str_def)

text \<open>
  A run that succeeds on the one-entry plan: the plan comes back as parsed, and it does
  not have the twelve-month curve.
\<close>

theorem itinerary_curve_unchecked:
  "snd (generateDeepTravelItinerary short_plan_env ''Kyoto, Japan'') = Inr short_plan
   \<and> crowd_curve short_plan = Some [JObject [(''month'', JString ''Jan''), (''score'', JNumber 150)]]
   \<and> \<not> twelve_month_curve short_plan"
  by (simp add: generateDeepTravelItinerary_def short_plan_env_def text_env_def no_service_def
        itinerary_request_def short_plan_def twelve_month_curve_def crowd_curve_def field_def)

text \<open>
  C4. A run of \<^const>\<open>generateDeepTravelItinerary\<close> succeeds with a plan exactly when the
  response has a non-empty text that parses to that plan: the value is returned as
  parsed, so it has the twelve-month curve when, and only when, the response text has it.
\<close>

theorem itinerary_returns_parsed_value:
  "snd (generateDeepTravelItinerary env loc) = Inr plan \<longleftrightarrow>
     (\<exists>response t. generateContent env (itinerary_request loc) = Inr response
        \<and> resp_text response = Some t \<and> t \<noteq> [] \<and> JSON_parse env t = Some plan)"
  by (auto simp: generateDeepTravelItinerary_def Let_def split: sum.splits option.splits)

theorem itinerary_returns_parsed_value_witness:
  "snd (generateDeepTravelItinerary full_plan_env ''Kyoto, Japan'') = Inr full_plan
   \<and> twelve_month_curve full_plan"
proof -
  have "\<exists>response t. generateContent full_plan_env (itinerary_request ''Kyoto, Japan'') = Inr response
        \<and> resp_text response = Some t \<and> t \<noteq> [] \<and> JSON_parse full_plan_env t = Some full_plan"
    by (simp add: full_plan_env_def text_env_def no_service_def itinerary_request_def)
  then have "snd (generateDeepTravelItinerary full_plan_env ''Kyoto, Japan'') = Inr full_plan"
    by (simp only: itinerary_returns_parsed_value)
  moreover have "twelve_month_curve full_plan"
    by (simp add: full_plan_def twelve_month_curve_def crowd_curve_def field_def score_in_range_def)
  ultimately show ?thesis by (rule conjI)
qed

text \<open>
  C6. On a response whose text is missing, empty or not parseable, each of the two
  structured calls fails, with a message of its own for the case, and returns no data.
\<close>

theorem malformed_response_aborts:
  assumes "generateContent env (itinerary_request loc) = Inr plan_response"
      and "generateContent env (hidden_spots_request loc) = Inr spots_response"
  shows "((resp_text plan_response = None \<or> resp_text plan_response = Some []) \<longrightarrow>
            snd (generateDeepTravelItinerary env loc) =
              Inl (new_Error ''AI Request Failed: The model returned an empty response.''))
       \<and> (\<forall>t. resp_text plan_response = Some t \<and> t \<noteq> [] \<and> JSON_parse env t = None \<longrightarrow>
            snd (generateDeepTravelItinerary env loc) =
              Inl (new_Error ''AI Request Failed: Failed to parse the travel plan data.''))
       \<and> ((resp_text spots_response = None \<or> resp_text spots_response = Some []) \<longrightarrow>
            snd (searchHiddenSpots env loc) =
              Inl (new_Error ''AI Request Failed: No results found for hidden spots.''))
       \<and> (\<forall>t. resp_text spots_response = Some t \<and> t \<noteq> [] \<and> JSON_parse env t = None \<longrightarrow>
            snd (searchHiddenSpots env loc) =
              Inl (new_Error ''AI Request Failed: Failed to parse hidden spots data.''))"
proof (intro conjI allI impI)
  assume "resp_text plan_response = None \<or> resp_text plan_response = Some []"
  then show "snd (generateDeepTravelItinerary env loc) =
              Inl (new_Error ''AI Request Failed: The model returned an empty response.'')"
    using assms(1)
    by (auto simp: generateDeepTravelItinerary_def Let_def formatError_own_messages)
next
  fix t
  assume "resp_text plan_response = Some t \<and> t \<noteq> [] \<and> JSON_parse env t = None"
  then show "snd (generateDeepTravelItinerary env loc) =
              Inl (new_Error ''AI Request Failed: Failed to parse the travel plan data.'')"
    using assms(1)
    by (simp add: generateDeepTravelItinerary_def Let_def formatError_own_messages)
next
  assume "resp_text spots_response = None \<or> resp_text spots_response = Some []"
  then show "snd (searchHiddenSpots env loc) =
              Inl (new_Error ''AI Request Failed: No results found for hidden spots.'')"
    using assms(2)
    by (auto simp: searchHiddenSpots_def Let_def formatError_own_messages)
next
  fix t
  assume "resp_text spots_response = Some t \<and> t \<noteq> [] \<and> JSON_parse env t = None"
  then show "snd (searchHiddenSpots env loc) =
              Inl (new_Error ''AI Request Failed: Failed to parse hidden spots data.'')"
    using assms(2)
    by (simp add: searchHiddenSpots_def Let_def formatError_own_messages)
qed

theorem malformed_response_aborts_witness:
  "snd (generateDeepTravelItinerary garbled_env ''Kyoto, Japan'') =
     Inl (new_Error ''AI Request Failed: Failed to parse the travel plan data.'')
   \<and> snd (searchHiddenSpots garbled_env ''Kyoto, Japan'') =
     Inl (new_Error ''AI Request Failed: Failed to parse hidden spots data.'')
   \<and> snd (generateDeepTravelItinerary (text_env [] (map_of [])) ''Kyoto, Japan'') =
     Inl (new_Error ''AI Request Failed: The model returned an empty response.'')
   \<and> snd (searchHiddenSpots (text_env [] (map_of [])) ''Kyoto, Japan'') =
     Inl (new_Error ''AI Request Failed: No results found for hidden spots.'')"
proof -
  have g: "generateContent garbled_env (itinerary_request ''Kyoto, Japan'') =
             Inr \<lparr> resp_text = Some ''Sure! Here is your plan'', parts = [] \<rparr>"
          "generateContent garbled_env (hidden_spots_request ''Kyoto, Japan'') =
             Inr \<lparr> resp_text = Some ''Sure! Here is your plan'', parts = [] \<rparr>"
    by (simp_all add: garbled_env_def text_env_def no_service_def itinerary_request_def
          hidden_spots_request_def)
  have p: "JSON_parse garbled_env ''Sure! Here is your plan'' = None"
    by (simp add: garbled_env_def text_env_def no_service_def)
  have e: "generateContent (text_env [] (map_of [])) (itinerary_request ''Kyoto, Japan'') =
             Inr \<lparr> resp_text = Some [], parts = [] \<rparr>"
          "generateContent (text_env [] (map_of [])) (hidden_spots_request ''Kyoto, Japan'') =
             Inr \<lparr> resp_text = Some [], parts = [] \<rparr>"
    by (simp_all add: text_env_def no_service_def itinerary_request_def hidden_spots_request_def)
  from malformed_response_aborts [OF g] p malformed_response_aborts [OF e]
  show ?thesis by simp
qed

section \<open>Properties of the preview images\<close>

lemma promise_all_preview_one:
  "\<exists>results. promise_all (map (preview_one env) prompts) = Inr results
     \<and> filter_non_null results = concat (map (preview_image env) prompts)"
proof (induction prompts)
  case Nil
  show ?case by simp
next
  case (Cons p ps)
  then obtain results where r: "promise_all (map (preview_one env) ps) = Inr results"
    and f: "filter_non_null results = concat (map (preview_image env) ps)"
    by blast
  show ?case
  proof (cases "generateContent env (image_request p)")
    case (Inl e)
    then have "preview_one env p = Inr None" "preview_image env p = []"
      by (simp_all add: preview_one_def preview_image_def)
    with r f show ?thesis by simp
  next
    case (Inr response)
    show ?thesis
    proof (cases "first_inline (parts response)")
      case None
      with Inr have "preview_one env p = Inr None" "preview_image env p = []"
        by (simp_all add: preview_one_def preview_image_def)
      with r f show ?thesis by simp
    next
      case (Some img)
      with Inr have "preview_one env p = Inr (Some img)" "preview_image env p = [img]"
        by (simp_all add: preview_one_def preview_image_def)
      with r f show ?thesis by simp
    qed
  qed
qed

lemma generateLocationPreviews_result:
  "snd (generateLocationPreviews env loc) = Inr (concat (map (preview_image env) (preview_prompts loc)))"
proof -
  obtain results where "promise_all (map (preview_one env) (preview_prompts loc)) = Inr results"
    and "filter_non_null results = concat (map (preview_image env) (preview_prompts loc))"
    using promise_all_preview_one by blast
  then show ?thesis
    by (simp add: generateLocationPreviews_def Let_def)
qed

lemma handleDeepPlan_fields:
  assumes "location s \<noteq> []"
  shows "travelData (snd (handleDeepPlan env textFirst s)) =
           (case snd (generateDeepTravelItinerary env (location s)) of
              Inr plan \<Rightarrow> Some plan | Inl e \<Rightarrow> None)"
    and "images (snd (handleDeepPlan env textFirst s)) =
           concat (map (preview_image env) (preview_prompts (location s)))"
proof -
  obtain fx1 where p: "generateLocationPreviews env (location s) =
      (fx1, Inr (concat (map (preview_image env) (preview_prompts (location s)))))"
    using generateLocationPreviews_result [of env "location s"]
    by (cases "generateLocationPreviews env (location s)") simp
  obtain fx2 r where t: "generateDeepTravelItinerary env (location s) = (fx2, r)"
    by (cases "generateDeepTravelItinerary env (location s)")
  show "travelData (snd (handleDeepPlan env textFirst s)) =
           (case snd (generateDeepTravelItinerary env (location s)) of
              Inr plan \<Rightarrow> Some plan | Inl e \<Rightarrow> None)"
    using assms p t
    by (cases r) (simp_all add: handleDeepPlan_def Let_def previews_arrived_def plan_arrived_def
                    clearResults_def)
  show "images (snd (handleDeepPlan env textFirst s)) =
           concat (map (preview_image env) (preview_prompts (location s)))"
    using assms p t
    by (cases r) (simp_all add: handleDeepPlan_def Let_def previews_arrived_def plan_arrived_def
                    clearResults_def)
qed

text \<open>
  C5. The preview request always resolves, with the images of the requests that
  produced one, in the order of the prompts; when none did, with the empty list. The
  plan that \<^const>\<open>handleDeepPlan\<close> stores is the one the text request gave, whatever
  happened to the images and whichever finished first.
\<close>

theorem preview_failures_tolerated:
  "snd (generateLocationPreviews env loc) = Inr (concat (map (preview_image env) (preview_prompts loc)))
   \<and> ((\<forall>prompt \<in> set (preview_prompts loc). preview_image env prompt = []) \<longrightarrow>
        snd (generateLocationPreviews env loc) = Inr [])
   \<and> (location s \<noteq> [] \<longrightarrow>
        travelData (snd (handleDeepPlan env textFirst s)) =
          (case snd (generateDeepTravelItinerary env (location s)) of
             Inr plan \<Rightarrow> Some plan | Inl e \<Rightarrow> None)
        \<and> images (snd (handleDeepPlan env textFirst s)) =
            concat (map (preview_image env) (preview_prompts (location s))))"
proof (intro conjI impI)
  show "snd (generateLocationPreviews env loc) =
          Inr (concat (map (preview_image env) (preview_prompts loc)))"
    by (rule generateLocationPreviews_result)
next
  assume "\<forall>prompt \<in> set (preview_prompts loc). preview_image env prompt = []"
  then have "concat (map (preview_image env) (preview_prompts loc)) = []"
    by simp
  then show "snd (generateLocationPreviews env loc) = Inr []"
    by (simp add: generateLocationPreviews_result)
next
  assume "location s \<noteq> []"
  then show "travelData (snd (handleDeepPlan env textFirst s)) =
          (case snd (generateDeepTravelItinerary env (location s)) of
             Inr plan \<Rightarrow> Some plan | Inl e \<Rightarrow> None)"
    by (rule handleDeepPlan_fields)
next
  assume "location s \<noteq> []"
  then show "images (snd (handleDeepPlan env textFirst s)) =
            concat (map (preview_image env) (preview_prompts (location s)))"
    by (rule handleDeepPlan_fields)
qed

theorem preview_failures_tolerated_witness:
  "snd (generateLocationPreviews full_plan_env ''Kyoto, Japan'') = Inr []
   \<and> travelData (snd (handleDeepPlan full_plan_env True (initial_agent ''Kyoto, Japan''))) = Some full_plan
   \<and> travelData (snd (handleDeepPlan full_plan_env False (initial_agent ''Kyoto, Japan''))) = Some full_plan
   \<and> images (snd (handleDeepPlan full_plan_env True (initial_agent ''Kyoto, Japan''))) = []
   \<and> snd (generateLocationPreviews sunset_only_env ''Kyoto, Japan'') = Inr [''data:image/png;base64,SUNSET'']"
proof -
  have none: "preview_image full_plan_env prompt = []" for prompt
    by (simp add: preview_image_def full_plan_env_def text_env_def no_service_def image_request_def)
  have plan: "snd (generateDeepTravelItinerary full_plan_env ''Kyoto, Japan'') = Inr full_plan"
    by (simp add: generateDeepTravelItinerary_def full_plan_env_def text_env_def no_service_def
          itinerary_request_def)
  have loc: "location (initial_agent ''Kyoto, Japan'') = ''Kyoto, Japan''"
    by (simp add: initial_agent_def)
  have sunset: "concat (map (preview_image sunset_only_env) (preview_prompts ''Kyoto, Japan'')) =
      [''data:image/png;base64,SUNSET'']"
    by (simp add: preview_image_def sunset_only_env_def preview_prompts_def image_request_def
          template_def)
  from preview_failures_tolerated [of full_plan_env "''Kyoto, Japan''" "initial_agent ''Kyoto, Japan''" True]
       preview_failures_tolerated [of full_plan_env "''Kyoto, Japan''" "initial_agent ''Kyoto, Japan''" False]
       preview_failures_tolerated [of sunset_only_env "''Kyoto, Japan''" "initial_agent ''Kyoto, Japan''" True]
  show ?thesis
    by (simp add: none plan loc sunset)
qed

section \<open>Properties of the chat\<close>

lemma show_nat_example: "show_nat 1203 = ''1203''"
  by (simp add: show_nat.simps)

text \<open>
  C8. When the request of a send fails, the transcript gains the user's message and
  after it one model message with the fixed text; nothing of the thrown value reaches
  the state, and the error cell is as before.
\<close>

theorem send_failure_appends_fallback:
  assumes "chatRef s = Some session"
      and "js_trim (chatInput s) \<noteq> []"
      and "sendMessage env session (chatInput s) = Inl err"
  shows "handleSendMessage env t1 t2 s =
           ([PreventDefault, SendMessage session (chatInput s)],
            s\<lparr> chatInput := [],
               chatMessages := chatMessages s @
                 [\<lparr> msg_id = show_nat t1, msg_role = User, msg_text = chatInput s \<rparr>,
                  \<lparr> msg_id = show_nat (t2 + 1), msg_role = Model,
                    msg_text = ''Sorry, I encountered an error answering that.'' \<rparr>],
               chatLoading := False \<rparr>)"
  using assms by (simp add: handleSendMessage_def Let_def)

theorem send_failure_appends_fallback_witness:
  "snd (handleSendMessage no_service 1700000000000 1700000002000
          (agent_with_plan ''Kyoto, Japan'' ''Is it safe?'')) =
     (agent_with_plan ''Kyoto, Japan'' [])
       \<lparr> chatMessages :=
           [\<lparr> msg_id = ''init'', msg_role = Model, msg_text = ''Ask me anything'' \<rparr>,
            \<lparr> msg_id = show_nat 1700000000000, msg_role = User, msg_text = ''Is it safe?'' \<rparr>,
            \<lparr> msg_id = show_nat 1700000002001, msg_role = Model,
              msg_text = ''Sorry, I encountered an error answering that.'' \<rparr>] \<rparr>"
proof -
  have h1: "chatRef (agent_with_plan ''Kyoto, Japan'' ''Is it safe?'') = Some (createTravelChat ''{}'')"
    by (simp add: agent_with_plan_def initial_agent_def)
  have h2: "js_trim (chatInput (agent_with_plan ''Kyoto, Japan'' ''Is it safe?'')) \<noteq> []"
    by (simp add: agent_with_plan_def initial_agent_def js_trim_def is_space_def)
  have h3: "sendMessage no_service (createTravelChat ''{}'')
              (chatInput (agent_with_plan ''Kyoto, Japan'' ''Is it safe?'')) = Inl (new_Error ''offline'')"
    by (simp add: no_service_def)
  from send_failure_appends_fallback [OF h1 h2 h3, of 1700000000000 1700000002000]
  show ?thesis
    by (simp add: agent_with_plan_def initial_agent_def)
qed

text \<open>
  C9. With no session open, or with an input that is empty or white space only, a send
  does nothing beyond \<^verbatim>\<open>preventDefault\<close>: no request goes out and no cell changes.
\<close>

theorem send_without_session_is_noop:
  assumes "chatRef s = None \<or> js_trim (chatInput s) = []"
  shows "handleSendMessage env t1 t2 s = ([PreventDefault], s)"
  using assms by (auto simp: handleSendMessage_def split: option.splits)

theorem send_without_session_is_noop_witness:
  "handleSendMessage no_service 1700000000000 1700000002000
     ((initial_agent ''Kyoto, Japan'') \<lparr> chatInput := ''Is it safe?'' \<rparr>) =
     ([PreventDefault], (initial_agent ''Kyoto, Japan'') \<lparr> chatInput := ''Is it safe?'' \<rparr>)
   \<and> handleSendMessage no_service 1700000000000 1700000002000
        (agent_with_plan ''Kyoto, Japan'' ''   '') =
     ([PreventDefault], agent_with_plan ''Kyoto, Japan'' ''   '')"
proof -
  have h1: "chatRef ((initial_agent ''Kyoto, Japan'') \<lparr> chatInput := ''Is it safe?'' \<rparr>) = None
            \<or> js_trim (chatInput ((initial_agent ''Kyoto, Japan'') \<lparr> chatInput := ''Is it safe?'' \<rparr>)) = []"
    by (simp add: initial_agent_def)
  have h2: "chatRef (agent_with_plan ''Kyoto, Japan'' ''   '') = None
            \<or> js_trim (chatInput (agent_with_plan ''Kyoto, Japan'' ''   '')) = []"
    by (simp add: agent_with_plan_def initial_agent_def js_trim_def is_space_def)
  from send_without_session_is_noop [OF h1] send_without_session_is_noop [OF h2]
  show ?thesis by simp
qed

section \<open>The empty-location guard\<close>

text \<open>
  C10. With an empty location, each of the three handlers returns at once: no request
  goes out and the state is the one it was called with.
\<close>

theorem empty_location_is_noop:
  "(location s = [] \<longrightarrow>
      handleDeepPlan env textFirst s = ([], s) \<and> handleHiddenSpots env s = ([], s))
   \<and> (locationName v = [] \<longrightarrow> handleGenerate env v = Some ([], v))"
  by (simp add: handleDeepPlan_def handleHiddenSpots_def handleGenerate_def)

theorem empty_location_is_noop_witness:
  "handleDeepPlan sunset_only_env True (agent_with_plan [] ''Is it safe?'') =
     ([], agent_with_plan [] ''Is it safe?'')
   \<and> handleHiddenSpots sunset_only_env (agent_with_plan [] ''Is it safe?'') =
     ([], agent_with_plan [] ''Is it safe?'')
   \<and> handleGenerate polling_env (initial_veo []) = Some ([], initial_veo [])"
proof -
  have h1: "location (agent_with_plan [] ''Is it safe?'') = []"
    by (simp add: agent_with_plan_def initial_agent_def)
  have h2: "locationName (initial_veo []) = []"
    by (simp add: initial_veo_def)
  from empty_location_is_noop
         [where s = "agent_with_plan [] ''Is it safe?''" and env = sunset_only_env
            and textFirst = True and v = "initial_veo []"]
       empty_location_is_noop [where v = "initial_veo []" and env = polling_env]
       h1 h2
  show ?thesis by simp
qed

text \<open>The guard is what keeps the handlers quiet: with a location, each sends a request.\<close>

lemma location_given_sends:
  assumes "location s \<noteq> []"
  shows "GenerateContent (itinerary_request (location s)) \<in> set (fst (handleDeepPlan env textFirst s))"
    and "hd (fst (handleHiddenSpots env s)) = GenerateContent (hidden_spots_request (location s))"
proof -
  show "GenerateContent (itinerary_request (location s)) \<in> set (fst (handleDeepPlan env textFirst s))"
    using assms
    by (simp add: handleDeepPlan_def generateDeepTravelItinerary_def Let_def split: prod.splits)
  show "hd (fst (handleHiddenSpots env s)) = GenerateContent (hidden_spots_request (location s))"
    using assms
    by (auto simp: handleHiddenSpots_def searchHiddenSpots_def Let_def
             split: prod.splits sum.splits json.splits option.splits)
qed

end
